theory Spec2Isabelle
  imports Main
begin

section \<open>Values that cross the layers\<close>

text \<open>
  An exception object as the code builds and reads it: \<^verbatim>\<open>new Error(message)\<close>, with the
  property \<^verbatim>\<open>statusCode\<close> set by the service, or left undefined.
\<close>

record js_error =
  message :: string
  statusCode :: "nat option"

text \<open>
  An error thrown by one of the libraries (pg, bcrypt, jsonwebtoken): an Error with a
  message and no \<^verbatim>\<open>statusCode\<close> property. A library call returns \<open>Inl message\<close> when it
  throws.
\<close>

definition lib_error :: "string \<Rightarrow> js_error" where
  "lib_error msg = \<lparr>message = msg, statusCode = None\<rparr>"

datatype json = JNum nat | JStr string | JObj "(string \<times> json) list"

text \<open>\<^verbatim>\<open>res.status(s).json(b)\<close>\<close>

record response =
  status :: nat
  body :: json

text \<open>The object literal \<^verbatim>\<open>{ message: m }\<close>.\<close>

definition message_body :: "string \<Rightarrow> json" where
  "message_body m = JObj [(''message'', JStr m)]"

text \<open>
  JavaScript's \<^verbatim>\<open>!v\<close> for a value that is a string or undefined: undefined and the empty
  string are falsy.
\<close>

definition falsy :: "string option \<Rightarrow> bool" where
  "falsy v = (case v of None \<Rightarrow> True | Some s \<Rightarrow> s = [])"

text \<open>
  A value of a field of a request body parsed from JSON: absent, null, a boolean, a number,
  a string, or an array or object (whose content no code here reads).
\<close>

datatype js_value = JsUndefined | JsNull | JsBool bool | JsNumber int | JsString string | JsObject

text \<open>JavaScript's \<^verbatim>\<open>!v\<close> for such a value.\<close>

definition falsy_value :: "js_value \<Rightarrow> bool" where
  "falsy_value v =
     (case v of JsUndefined \<Rightarrow> True | JsNull \<Rightarrow> True | JsBool b \<Rightarrow> b = False
      | JsNumber n \<Rightarrow> n = 0 | JsString t \<Rightarrow> t = [] | JsObject \<Rightarrow> False)"

text \<open>
  \<^verbatim>\<open>s.split(sep)\<close> for a one-character separator: every occurrence of the separator ends a
  part, so the empty string gives one empty part and \<^verbatim>\<open>"a  b"\<close> gives three parts.
\<close>

fun js_split :: "char \<Rightarrow> string \<Rightarrow> string list" where
  "js_split sep [] = [[]]"
| "js_split sep (c # cs) =
     (if c = sep then [] # js_split sep cs
      else (case js_split sep cs of [] \<Rightarrow> [[c]] | p # ps \<Rightarrow> (c # p) # ps))"

text \<open>The process environment the code reads: \<^verbatim>\<open>process.env.JWT_SECRET\<close> and
  \<^verbatim>\<open>process.env.JWT_EXPIRES_IN\<close> (a duration, here in seconds; \<open>None\<close> when unset or empty).\<close>

record env =
  JWT_SECRET :: string
  env_JWT_EXPIRES_IN :: "nat option"

text \<open>\<^verbatim>\<open>const JWT_EXPIRES_IN = process.env.JWT_EXPIRES_IN || "1h"\<close>\<close>

definition JWT_EXPIRES_IN :: "env \<Rightarrow> nat" where
  "JWT_EXPIRES_IN e = (case env_JWT_EXPIRES_IN e of None \<Rightarrow> 3600 | Some t \<Rightarrow> t)"

section \<open>The libraries the code calls\<close>

text \<open>
  bcrypt and jsonwebtoken are dependencies, not code of the repository. The service and
  the middleware take them as parameters; a call returns \<open>Inl message\<close> when the library
  throws. The password reaches bcrypt as the request body holds it, whatever its type.
\<close>

record bcrypt_lib =
  bcrypt_hash :: "js_value \<Rightarrow> nat \<Rightarrow> string + string"
  bcrypt_compare :: "js_value \<Rightarrow> string \<Rightarrow> string + bool"

text \<open>The payload \<^verbatim>\<open>jwt.verify\<close> returns: the claims sub, email, iat and exp.\<close>

record jwt_payload =
  pl_sub :: nat
  pl_email :: string
  pl_iat :: nat
  pl_exp :: nat

text \<open>
  \<^verbatim>\<open>jwt.sign({ sub, email }, secret, { expiresIn })\<close> and \<^verbatim>\<open>jwt.verify(token, secret)\<close>.
\<close>

record jwt_lib =
  jwt_sign :: "nat \<times> string \<Rightarrow> string \<Rightarrow> nat \<Rightarrow> string + string"
  jwt_verify :: "string \<Rightarrow> string \<Rightarrow> string + jwt_payload"

section \<open>The store\<close>

text \<open>A row of the table \<^verbatim>\<open>users\<close>, with the columns the queries name.\<close>

record users_row =
  id_col :: nat
  name_col :: string
  email_col :: string
  password_hash :: string
  created_at :: nat

record db =
  users :: "users_row list"
  next_id :: nat
  db_now :: nat

text \<open>
  Modelled from the spec: the PostgreSQL server and the schema of the table \<^verbatim>\<open>users\<close> are
  not in the repository. Section 6 of the spec gives the store's contract: lookups by email
  and by id, and an insert that assigns the id and the creation time and fails with
  DuplicateKey when the email is already there.
  The three functions are \<^verbatim>\<open>query(text, params)\<close> for the three statements of
  \<^verbatim>\<open>user.repository.js\<close>; each returns \<^verbatim>\<open>result.rows\<close>.
\<close>

definition select_by_email :: "db \<Rightarrow> string \<Rightarrow> users_row list" where
  "select_by_email d e = filter (\<lambda>r. email_col r = e) (users d)"

text \<open>Modelled from the spec: the store's lookup by id.\<close>

definition select_by_id :: "db \<Rightarrow> nat \<Rightarrow> users_row list" where
  "select_by_id d i = filter (\<lambda>r. id_col r = i) (users d)"

text \<open>Modelled from the spec: the message of the error the store throws on a duplicate email.\<close>

definition DuplicateKey :: string where
  "DuplicateKey = ''duplicate key value violates unique constraint''"

text \<open>
  Modelled from the spec: the store's insert. The email is unique in the store; the store
  assigns the id and the creation time.
\<close>

definition insert_returning :: "db \<Rightarrow> string \<times> string \<times> string \<Rightarrow> (string + users_row list) \<times> db" where
  "insert_returning d v =
     (case v of (n, e, h) \<Rightarrow>
        if select_by_email d e \<noteq> [] then (Inl DuplicateKey, d)
        else
          (let r = \<lparr>id_col = next_id d, name_col = n, email_col = e, password_hash = h,
                    created_at = db_now d\<rparr>
           in (Inr [r], d\<lparr>users := users d @ [r], next_id := Suc (next_id d)\<rparr>)))"

text \<open>
  Modelled from the spec: the inserts of other requests that the store serves while one
  request awaits. Each runs as \<open>insert_returning\<close>, and its outcome goes to the other
  request.
\<close>

fun interleave :: "(string \<times> string \<times> string) list \<Rightarrow> db \<Rightarrow> db" where
  "interleave [] d = d"
| "interleave (v # vs) d = interleave vs (snd (insert_returning d v))"

section \<open>models/user.model.js and repositories/user.repository.js\<close>

text \<open>The object \<open>mapRow\<close> builds, which is also the shape of the class \<open>User\<close>.\<close>

record user =
  user_id :: nat
  user_name :: string
  user_email :: string
  passwordHash :: string
  createdAt :: nat

definition User :: "user \<Rightarrow> user" where
  "User u = \<lparr>user_id = user_id u, user_name = user_name u, user_email = user_email u,
            passwordHash = passwordHash u, createdAt = createdAt u\<rparr>"

definition mapRow :: "users_row \<Rightarrow> user" where
  "mapRow row = \<lparr>user_id = id_col row, user_name = name_col row, user_email = email_col row,
                 passwordHash = password_hash row, createdAt = created_at row\<rparr>"

definition findByEmail :: "db \<Rightarrow> string \<Rightarrow> user option" where
  "findByEmail d email =
     (case select_by_email d email of [] \<Rightarrow> None | row # _ \<Rightarrow> Some (mapRow row))"

definition findById :: "db \<Rightarrow> nat \<Rightarrow> user option" where
  "findById d i =
     (case select_by_id d i of [] \<Rightarrow> None | row # _ \<Rightarrow> Some (mapRow row))"

text \<open>
  \<open>createUser\<close> has no handler around the query: what the store throws leaves it as it is.
  The insert returns one row on success.
\<close>

definition createUser :: "db \<Rightarrow> string \<times> string \<times> string \<Rightarrow> (js_error + user) \<times> db" where
  "createUser d v =
     (case insert_returning d v of
        (Inl msg, d') \<Rightarrow> (Inl (lib_error msg), d')
      | (Inr [], d') \<Rightarrow> (Inl (lib_error ''Cannot read properties of undefined''), d')
      | (Inr (row # _), d') \<Rightarrow> (Inr (mapRow row), d'))"

section \<open>services/user.service.js\<close>

text \<open>
  \<open>registerUser\<close> awaits the lookup, the hash and the insert in turn. \<open>concurrent\<close> are
  the inserts of other requests that reach the store between this request's lookup and its
  insert; \<open>[]\<close> is the call that runs alone.
\<close>

definition registerUser ::
  "bcrypt_lib \<Rightarrow> (string \<times> string \<times> string) list \<Rightarrow> string \<Rightarrow> string \<Rightarrow> js_value \<Rightarrow> db
     \<Rightarrow> (js_error + user) \<times> db" where
  "registerUser bcrypt concurrent name email password d =
     (case findByEmail d email of
        Some existing \<Rightarrow>
          (Inl \<lparr>message = ''El email ya esta registrado'', statusCode = Some 409\<rparr>, d)
      | None \<Rightarrow>
          (let d1 = interleave concurrent d in
           case bcrypt_hash bcrypt password 10 of
             Inl msg \<Rightarrow> (Inl (lib_error msg), d1)
           | Inr hashed \<Rightarrow>
               (case createUser d1 (name, email, hashed) of
                  (Inl err, d2) \<Rightarrow> (Inl err, d2)
                | (Inr u, d2) \<Rightarrow> (Inr (User u), d2))))"

definition loginUser ::
  "bcrypt_lib \<Rightarrow> jwt_lib \<Rightarrow> env \<Rightarrow> string \<Rightarrow> js_value \<Rightarrow> db \<Rightarrow> js_error + (string \<times> user)" where
  "loginUser bcrypt jwt e email password d =
     (case findByEmail d email of
        None \<Rightarrow> Inl \<lparr>message = ''Credenciales invalidas'', statusCode = Some 401\<rparr>
      | Some u \<Rightarrow>
          (case bcrypt_compare bcrypt password (passwordHash u) of
             Inl msg \<Rightarrow> Inl (lib_error msg)
           | Inr passwordMatch \<Rightarrow>
               if \<not> passwordMatch
               then Inl \<lparr>message = ''Credenciales invalidas'', statusCode = Some 401\<rparr>
               else
                 (case jwt_sign jwt (user_id u, user_email u) (JWT_SECRET e) (JWT_EXPIRES_IN e) of
                    Inl msg \<Rightarrow> Inl (lib_error msg)
                  | Inr token \<Rightarrow> Inr (token, User u))))"

definition getProfile :: "db \<Rightarrow> nat \<Rightarrow> js_error + user" where
  "getProfile d userId =
     (case findById d userId of
        None \<Rightarrow> Inl \<lparr>message = ''Usuario no encontrado'', statusCode = Some 404\<rparr>
      | Some u \<Rightarrow> Inr (User u))"

section \<open>middlewares/auth.middleware.js\<close>

text \<open>\<^verbatim>\<open>req.user = { id, email }\<close>\<close>

record req_user =
  req_user_id :: nat
  req_user_email :: string

text \<open>The middleware either answers the request itself or calls \<^verbatim>\<open>next()\<close> with \<^verbatim>\<open>req.user\<close> set.\<close>

datatype mw_result = Responded response | Next req_user

text \<open>
  The second component lists the tokens handed to \<^verbatim>\<open>jwt.verify\<close>, in order: the
  cryptographic work of the call.
\<close>

definition authMiddleware :: "jwt_lib \<Rightarrow> env \<Rightarrow> string option \<Rightarrow> mw_result \<times> string list" where
  "authMiddleware jwt e authorization =
     (let authHeader = (case authorization of None \<Rightarrow> [] | Some h \<Rightarrow> h);
          parts = js_split CHR '' '' authHeader;
          scheme = (case parts of [] \<Rightarrow> None | s # _ \<Rightarrow> Some s);
          token = (case parts of _ # t # _ \<Rightarrow> Some t | _ \<Rightarrow> None)
      in
        if scheme \<noteq> Some ''Bearer'' \<or> falsy token
        then (Responded \<lparr>status = 401, body = message_body ''No autorizado''\<rparr>, [])
        else
          (case token of
             None \<Rightarrow> (Responded \<lparr>status = 401, body = message_body ''No autorizado''\<rparr>, [])
           | Some t \<Rightarrow>
               (case jwt_verify jwt t (JWT_SECRET e) of
                  Inr payload \<Rightarrow>
                    (Next \<lparr>req_user_id = pl_sub payload, req_user_email = pl_email payload\<rparr>, [t])
                | Inl err \<Rightarrow>
                    (Responded \<lparr>status = 401, body = message_body ''Token invalido''\<rparr>, [t]))))"

section \<open>controllers/user.controller.js\<close>

text \<open>
  The handlers test the fields of \<^verbatim>\<open>req.body\<close> for truthiness only. The password goes to
  bcrypt as it is, so it is a \<open>js_value\<close>; name and email go to the store as query
  parameters, and are the strings the store receives, or absent.
  The three handlers end in the same catch block:
  \<^verbatim>\<open>const status = error.statusCode || 500; return res.status(status).json({ message: error.message })\<close>.
  A statusCode of 0 is falsy, as an undefined one is.
\<close>

definition catch_response :: "js_error \<Rightarrow> response" where
  "catch_response error =
     \<lparr>status = (case statusCode error of None \<Rightarrow> 500 | Some c \<Rightarrow> if c = 0 then 500 else c),
      body = message_body (message error)\<rparr>"

definition register ::
  "bcrypt_lib \<Rightarrow> (string \<times> string \<times> string) list \<Rightarrow> string option \<Rightarrow> string option
     \<Rightarrow> js_value \<Rightarrow> db \<Rightarrow> response \<times> db" where
  "register bcrypt concurrent name email password d =
     (if falsy name \<or> falsy email \<or> falsy_value password
      then (\<lparr>status = 400, body = message_body ''Faltan datos requeridos''\<rparr>, d)
      else
        (case registerUser bcrypt concurrent (the name) (the email) password d of
           (Inr u, d') \<Rightarrow>
             (\<lparr>status = 201,
               body = JObj [(''id'', JNum (user_id u)), (''name'', JStr (user_name u)),
                            (''email'', JStr (user_email u)), (''createdAt'', JNum (createdAt u))]\<rparr>,
              d')
         | (Inl error, d') \<Rightarrow> (catch_response error, d')))"

definition login ::
  "bcrypt_lib \<Rightarrow> jwt_lib \<Rightarrow> env \<Rightarrow> string option \<Rightarrow> js_value \<Rightarrow> db \<Rightarrow> response" where
  "login bcrypt jwt e email password d =
     (if falsy email \<or> falsy_value password
      then \<lparr>status = 400, body = message_body ''Faltan datos requeridos''\<rparr>
      else
        (case loginUser bcrypt jwt e (the email) password d of
           Inr (token, u) \<Rightarrow>
             \<lparr>status = 200,
              body = JObj [(''token'', JStr token),
                           (''user'', JObj [(''id'', JNum (user_id u)), (''name'', JStr (user_name u)),
                                            (''email'', JStr (user_email u))])]\<rparr>
         | Inl error \<Rightarrow> catch_response error))"

definition me :: "req_user \<Rightarrow> db \<Rightarrow> response" where
  "me ru d =
     (case getProfile d (req_user_id ru) of
        Inr u \<Rightarrow>
          \<lparr>status = 200,
           body = JObj [(''id'', JNum (user_id u)), (''name'', JStr (user_name u)),
                        (''email'', JStr (user_email u)), (''createdAt'', JNum (createdAt u))]\<rparr>
      | Inl error \<Rightarrow> catch_response error)"

section \<open>The Credential Hasher and the Token Issuer/Verifier of the spec\<close>

text \<open>
  Modelled from the spec: the digest and the token of the spec are self-contained strings.
  \<open>esc\<close> is a text armour for their parts: the separators and the space are written as
  two characters, so that an armoured string holds none of them.
\<close>

fun esc :: "string \<Rightarrow> string" where
  "esc [] = []"
| "esc (c # cs) =
     (if c = CHR ''~'' then ''~t''
      else if c = CHR '' '' then ''~s''
      else if c = CHR ''.'' then ''~d''
      else if c = CHR '','' then ''~c''
      else if c = CHR ''$'' then ''~m''
      else [c]) @ esc cs"

text \<open>Modelled from the spec: reading an armoured part back; \<open>None\<close> when it is not one.\<close>

fun unesc :: "string \<Rightarrow> string option" where
  "unesc [] = Some []"
| "unesc [c] = (if c = CHR ''~'' then None else Some [c])"
| "unesc (c # x # cs) =
     (if c = CHR ''~'' then
        (if x = CHR ''t'' then map_option ((#) CHR ''~'') (unesc cs)
         else if x = CHR ''s'' then map_option ((#) CHR '' '') (unesc cs)
         else if x = CHR ''d'' then map_option ((#) CHR ''.'') (unesc cs)
         else if x = CHR ''c'' then map_option ((#) CHR '','') (unesc cs)
         else if x = CHR ''m'' then map_option ((#) CHR ''$'') (unesc cs)
         else None)
      else map_option ((#) c) (unesc (x # cs)))"

text \<open>Modelled from the spec: the numbers of a digest and of a token, in decimal.\<close>

fun show_nat :: "nat \<Rightarrow> string" where
  "show_nat n =
     (if n < 10 then [char_of (48 + n)] else show_nat (n div 10) @ [char_of (48 + n mod 10)])"

text \<open>Modelled from the spec: the decimal digits, and reading a number back.\<close>

definition is_digit :: "char \<Rightarrow> bool" where
  "is_digit c = (48 \<le> (of_char c :: nat) \<and> (of_char c :: nat) \<le> 57)"

definition read_nat :: "string \<Rightarrow> nat option" where
  "read_nat s =
     (if s = [] \<or> \<not> list_all is_digit s then None
      else Some (foldl (\<lambda>a c. 10 * a + (of_char c - 48)) 0 s))"

text \<open>
  Modelled from the spec: the bcrypt library is not in the repository. Section 4.1 of the
  spec: \<open>hash\<close> produces a self-contained digest with the algorithm parameter (the cost),
  the salt and the hash embedded; \<open>verify\<close> recomputes with the parameters embedded in the
  digest and compares, returns false on a malformed digest, and fails with InvalidInput
  on an empty password (section 7 lists the empty password as the caller misuse that the
  Hasher reports as InvalidInput). The random salt is an argument of \<open>hash\<close>; the one-way
  function \<open>kdf\<close> (cost, salt, password) is a parameter.
\<close>

definition InvalidInput :: string where
  "InvalidInput = ''InvalidInput''"

text \<open>Modelled from the spec: \<open>hash\<close>; the digest is \<open>cost$salt$hash\<close>.\<close>

definition hasher_hash ::
  "(nat \<Rightarrow> nat \<Rightarrow> string \<Rightarrow> string) \<Rightarrow> nat \<Rightarrow> string \<Rightarrow> nat \<Rightarrow> string + string" where
  "hasher_hash kdf salt password cost =
     (if password = [] then Inl InvalidInput
      else Inr (show_nat cost @ ''$'' @ show_nat salt @ ''$'' @ esc (kdf cost salt password)))"

text \<open>Modelled from the spec: \<open>verify\<close>.\<close>

definition hasher_verify ::
  "(nat \<Rightarrow> nat \<Rightarrow> string \<Rightarrow> string) \<Rightarrow> string \<Rightarrow> string \<Rightarrow> string + bool" where
  "hasher_verify kdf password digest =
     (if password = [] then Inl InvalidInput
      else
        (case js_split CHR ''$'' digest of
           [c, s, h] \<Rightarrow>
             (case (read_nat c, read_nat s, unesc h) of
                (Some cost, Some salt, Some hashed) \<Rightarrow> Inr (kdf cost salt password = hashed)
              | _ \<Rightarrow> Inr False)
         | _ \<Rightarrow> Inr False))"

text \<open>
  Modelled from the spec: the Hasher as the library the service calls, for one salt. The
  Hasher of the spec takes a string; a password that is not one is caller misuse, and
  fails with InvalidInput.
\<close>

definition hasher :: "(nat \<Rightarrow> nat \<Rightarrow> string \<Rightarrow> string) \<Rightarrow> nat \<Rightarrow> bcrypt_lib" where
  "hasher kdf salt =
     \<lparr>bcrypt_hash = (\<lambda>password cost.
        case password of JsString t \<Rightarrow> hasher_hash kdf salt t cost | _ \<Rightarrow> Inl InvalidInput),
      bcrypt_compare = (\<lambda>password digest.
        case password of JsString t \<Rightarrow> hasher_verify kdf t digest | _ \<Rightarrow> Inl InvalidInput)\<rparr>"

text \<open>
  Modelled from the spec: the jsonwebtoken library is not in the repository. Section 4.2
  of the spec: \<open>issue\<close> builds a signed assertion with the subject id, the email, the
  issue time and the expiry, which is the issue time plus the ttl; \<open>verify\<close> checks the
  signature first, then \<open>now \<le> expiresAt\<close>, then the structure of the required fields.
  The signing function \<open>mac\<close> (secret, text) is a parameter and \<open>now\<close> is the verifier's
  clock, in seconds. The signed text is \<open>sub,iat,exp,email\<close>; the token is the signed
  text, a dot and the signature.
\<close>

datatype rejected = InvalidSignature | Expired | Malformed

text \<open>Modelled from the spec: \<open>issue\<close>.\<close>

definition token_issue ::
  "(string \<Rightarrow> string \<Rightarrow> string) \<Rightarrow> nat \<Rightarrow> nat \<times> string \<Rightarrow> string \<Rightarrow> nat \<Rightarrow> string" where
  "token_issue mac now claims secret ttl =
     (case claims of (accountId, email) \<Rightarrow>
        (let signed = show_nat accountId @ '','' @ show_nat now @ '','' @ show_nat (now + ttl)
                        @ '','' @ esc email
         in signed @ ''.'' @ esc (mac secret signed)))"

text \<open>Modelled from the spec: \<open>verify\<close>, with the three checks in the order of the spec.\<close>

definition token_verify ::
  "(string \<Rightarrow> string \<Rightarrow> string) \<Rightarrow> nat \<Rightarrow> string \<Rightarrow> string \<Rightarrow> rejected + jwt_payload" where
  "token_verify mac now token secret =
     (case js_split CHR ''.'' token of
        [signed, signature] \<Rightarrow>
          if unesc signature \<noteq> Some (mac secret signed) then Inl InvalidSignature
          else
            (case js_split CHR '','' signed of
               [s, i, x, m] \<Rightarrow>
                 (case read_nat x of
                    None \<Rightarrow> Inl Malformed
                  | Some expiresAt \<Rightarrow>
                      if \<not> now \<le> expiresAt then Inl Expired
                      else
                        (case (read_nat s, read_nat i, unesc m) of
                           (Some subject, Some issuedAt, Some email) \<Rightarrow>
                             Inr \<lparr>pl_sub = subject, pl_email = email, pl_iat = issuedAt,
                                  pl_exp = expiresAt\<rparr>
                         | _ \<Rightarrow> Inl Malformed))
             | _ \<Rightarrow> Inl Malformed)
      | _ \<Rightarrow> Inl InvalidSignature)"

text \<open>Modelled from the spec: the message of the error thrown for a rejection.\<close>

definition rejected_message :: "rejected \<Rightarrow> string" where
  "rejected_message r =
     (case r of InvalidSignature \<Rightarrow> ''invalid signature'' | Expired \<Rightarrow> ''jwt expired''
      | Malformed \<Rightarrow> ''jwt malformed'')"

text \<open>
  Modelled from the spec: the Token Issuer/Verifier as the library the service and the
  middleware call, at one clock value.
\<close>

definition token_lib :: "(string \<Rightarrow> string \<Rightarrow> string) \<Rightarrow> nat \<Rightarrow> jwt_lib" where
  "token_lib mac now =
     \<lparr>jwt_sign = (\<lambda>claims secret ttl. Inr (token_issue mac now claims secret ttl)),
      jwt_verify = (\<lambda>token secret.
         case token_verify mac now token secret of
           Inl r \<Rightarrow> Inl (rejected_message r)
         | Inr payload \<Rightarrow> Inr payload)\<rparr>"

section \<open>Concrete instances for running the model\<close>

text \<open>
  Stand-ins for the two cryptographic functions, used only where the model is run on a
  concrete input; every general theorem holds for all \<open>kdf\<close> and \<open>mac\<close>.
\<close>

definition example_kdf :: "nat \<Rightarrow> nat \<Rightarrow> string \<Rightarrow> string" where
  "example_kdf cost salt password = show_nat cost @ show_nat salt @ rev password"

definition example_mac :: "string \<Rightarrow> string \<Rightarrow> string" where
  "example_mac secret signed = rev secret @ signed"

definition example_env :: env where
  "example_env = \<lparr>JWT_SECRET = ''k'', env_JWT_EXPIRES_IN = None\<rparr>"

definition empty_db :: db where
  "empty_db = \<lparr>users = [], next_id = 1, db_now = 5\<rparr>"

definition ana_db :: db where
  "ana_db = \<lparr>users = [\<lparr>id_col = 1, name_col = ''Ana'', email_col = ''ana@x.com'',
                         password_hash = ''10$7$107321terces'', created_at = 5\<rparr>],
             next_id = 2, db_now = 5\<rparr>"

section \<open>Notions the properties are stated with\<close>

text \<open>
  The header format in the words of the spec: the scheme is the first space-separated
  part of the header, the value is the part that follows the single space after it. A
  header is malformed when it is absent, when its scheme is not exactly \<open>Bearer\<close>, or when
  the value after the scheme is missing or empty.
\<close>

definition header_scheme :: "string \<Rightarrow> string" where
  "header_scheme h = takeWhile (\<lambda>c. c \<noteq> CHR '' '') h"

definition header_value :: "string \<Rightarrow> string" where
  "header_value h = takeWhile (\<lambda>c. c \<noteq> CHR '' '') (drop 1 (dropWhile (\<lambda>c. c \<noteq> CHR '' '') h))"

definition malformed_header :: "string option \<Rightarrow> bool" where
  "malformed_header hdr =
     (case hdr of None \<Rightarrow> True
      | Some h \<Rightarrow> header_scheme h \<noteq> ''Bearer'' \<or> header_value h = [])"

text \<open>Every field name of a JSON value, at any depth.\<close>

fun json_keys :: "json \<Rightarrow> string list" where
  "json_keys (JNum n) = []"
| "json_keys (JStr s) = []"
| "json_keys (JObj kvs) = concat (map (\<lambda>kv. fst kv # json_keys (snd kv)) kvs)"



section \<open>Lemmas on the helpers\<close>

lemma falsy_simps: "falsy None" "falsy (Some s) = (s = [])"
  by (simp_all add: falsy_def)

lemma falsy_value_simps:
  "falsy_value JsUndefined" "falsy_value JsNull" "falsy_value (JsBool b) = (\<not> b)"
  "falsy_value (JsNumber n) = (n = 0)" "falsy_value (JsString t) = (t = [])"
  "\<not> falsy_value JsObject"
  by (simp_all add: falsy_value_def)

lemma js_split_not_Nil: "js_split sep s \<noteq> []"
  by (induction s) (auto split: list.splits)

lemma js_split_no_sep: "sep \<notin> set a \<Longrightarrow> js_split sep a = [a]"
  by (induction a) auto

lemma js_split_append: "sep \<notin> set a \<Longrightarrow> js_split sep (a @ sep # b) = a # js_split sep b"
  by (induction a) (auto split: list.splits)

lemma js_split_takeWhile:
  "js_split sep s = takeWhile (\<lambda>c. c \<noteq> sep) s #
     (case dropWhile (\<lambda>c. c \<noteq> sep) s of [] \<Rightarrow> [] | _ # r \<Rightarrow> js_split sep r)"
  by (induction s) (auto split: list.splits)

lemma unesc_plain: "c \<noteq> CHR ''~'' \<Longrightarrow> unesc (c # r) = map_option ((#) c) (unesc r)"
  by (cases r) auto

lemma unesc_esc: "unesc (esc s) = Some s"
  by (induction s) (auto simp: unesc_plain)

lemma esc_no_sep:
  "CHR '' '' \<notin> set (esc s)" "CHR ''.'' \<notin> set (esc s)" "CHR '','' \<notin> set (esc s)"
  "CHR ''$'' \<notin> set (esc s)"
  by (induction s) auto

declare show_nat.simps [simp del]

lemma digit_char: "(d::nat) < 10 \<Longrightarrow> is_digit (char_of (48 + d))"
  by (simp add: is_digit_def)

lemma digit_value: "d < 10 \<Longrightarrow> (of_char (char_of (48 + d) :: char) :: nat) - 48 = d"
  by simp

lemma show_nat_digits: "list_all is_digit (show_nat n)"
  by (induction n rule: show_nat.induct) (subst show_nat.simps, simp add: digit_char)

lemma show_nat_not_Nil: "show_nat n \<noteq> []"
  by (subst show_nat.simps) simp

lemma foldl_show_nat:
  "foldl (\<lambda>a c. 10 * a + (of_char c - 48)) 0 (show_nat n) = n"
  by (induction n rule: show_nat.induct) (subst show_nat.simps, simp add: digit_value)

lemma read_show_nat: "read_nat (show_nat n) = Some n"
  by (simp add: read_nat_def show_nat_digits show_nat_not_Nil foldl_show_nat)

lemma is_digit_not_sep:
  "is_digit c \<Longrightarrow> c \<noteq> CHR '' '' \<and> c \<noteq> CHR ''.'' \<and> c \<noteq> CHR '','' \<and> c \<noteq> CHR ''$''"
  by (auto simp: is_digit_def)

lemma show_nat_no_sep:
  "CHR '' '' \<notin> set (show_nat n)" "CHR ''.'' \<notin> set (show_nat n)" "CHR '','' \<notin> set (show_nat n)"
  "CHR ''$'' \<notin> set (show_nat n)"
  using show_nat_digits [of n] is_digit_not_sep by (auto simp: list_all_iff)

lemma digest_split:
  "js_split CHR ''$'' (show_nat c @ CHR ''$'' # show_nat s @ CHR ''$'' # esc h)
     = [show_nat c, show_nat s, esc h]"
  by (simp add: js_split_append js_split_no_sep show_nat_no_sep esc_no_sep)

lemma signed_split:
  "js_split CHR '','' (show_nat a @ '','' @ show_nat b @ '','' @ show_nat c @ '','' @ esc m)
     = [show_nat a, show_nat b, show_nat c, esc m]"
  by (simp add: js_split_append js_split_no_sep show_nat_no_sep esc_no_sep)

lemma token_roundtrip:
  "token_verify mac now (token_issue mac now (accountId, email) secret ttl) secret =
     Inr \<lparr>pl_sub = accountId, pl_email = email, pl_iat = now, pl_exp = now + ttl\<rparr>"
proof -
  define signed where
    "signed = show_nat accountId @ '','' @ show_nat now @ '','' @ show_nat (now + ttl) @ '','' @ esc email"
  have tok: "token_issue mac now (accountId, email) secret ttl
               = signed @ CHR ''.'' # esc (mac secret signed)"
    by (simp add: token_issue_def signed_def Let_def)
  have "CHR ''.'' \<notin> set signed"
    by (simp add: signed_def show_nat_no_sep esc_no_sep)
  then have dot: "js_split CHR ''.'' (signed @ CHR ''.'' # esc (mac secret signed))
                    = [signed, esc (mac secret signed)]"
    by (simp add: js_split_append js_split_no_sep esc_no_sep)
  have comma: "js_split CHR '','' signed
                 = [show_nat accountId, show_nat now, show_nat (now + ttl), esc email]"
    unfolding signed_def by (rule signed_split)
  show ?thesis
    unfolding token_verify_def tok dot
    by (simp add: comma unesc_esc read_show_nat)
qed

lemma token_no_space: "CHR '' '' \<notin> set (token_issue mac now claims secret ttl)"
  by (cases claims) (simp add: token_issue_def Let_def show_nat_no_sep esc_no_sep)

lemma token_not_Nil: "token_issue mac now claims secret ttl \<noteq> []"
  by (cases claims) (simp add: token_issue_def Let_def show_nat_not_Nil)

lemma hasher_roundtrip:
  "hasher_hash kdf salt p cost = Inr d \<Longrightarrow> hasher_verify kdf p d = Inr True"
  by (auto simp: hasher_hash_def hasher_verify_def digest_split unesc_esc read_show_nat
           split: if_splits)

lemma hasher_salted:
  assumes "hasher_hash kdf s1 p cost = Inr d1" "hasher_hash kdf s2 p cost = Inr d2" "s1 \<noteq> s2"
  shows "d1 \<noteq> d2"
proof
  assume "d1 = d2"
  with assms(1,2) have
    "js_split CHR ''$'' (show_nat cost @ CHR ''$'' # show_nat s1 @ CHR ''$'' # esc (kdf cost s1 p))
      = js_split CHR ''$'' (show_nat cost @ CHR ''$'' # show_nat s2 @ CHR ''$'' # esc (kdf cost s2 p))"
    by (auto simp: hasher_hash_def split: if_splits)
  then have "show_nat s1 = show_nat s2"
    unfolding digest_split by simp
  then have "read_nat (show_nat s1) = read_nat (show_nat s2)" by simp
  with assms(3) show False by (simp add: read_show_nat)
qed

section \<open>Lemmas on the repository, the service and the middleware\<close>

lemma findByEmail_None_iff: "findByEmail d email = None \<longleftrightarrow> email \<notin> email_col ` set (users d)"
proof -
  have "findByEmail d email = None \<longleftrightarrow> select_by_email d email = []"
    by (simp add: findByEmail_def split: list.splits)
  also have "\<dots> \<longleftrightarrow> email \<notin> email_col ` set (users d)"
    by (auto simp: select_by_email_def filter_empty_conv)
  finally show ?thesis .
qed


lemma registerUser_409_from_lookup:
  "fst (registerUser bcrypt concurrent name email password d) = Inl err \<Longrightarrow>
     statusCode err = Some 409 \<Longrightarrow> findByEmail d email \<noteq> None"
  by (auto simp: registerUser_def createUser_def lib_error_def Let_def
           split: option.splits sum.splits prod.splits list.splits)




lemma header_scheme_split:
  "(case js_split CHR '' '' h of [] \<Rightarrow> None | s # _ \<Rightarrow> Some s) = Some (header_scheme h)"
  by (subst js_split_takeWhile) (simp add: header_scheme_def)

lemma header_value_split:
  "(case js_split CHR '' '' h of _ # t # _ \<Rightarrow> Some t | _ \<Rightarrow> None) =
     (case dropWhile (\<lambda>c. c \<noteq> CHR '' '') h of [] \<Rightarrow> None | _ # r \<Rightarrow> Some (header_value h))"
proof (cases "dropWhile (\<lambda>c. c \<noteq> CHR '' '') h")
  case Nil
  then show ?thesis
    by (subst js_split_takeWhile) (simp del: dropWhile_eq_Nil_conv)
next
  case (Cons x r)
  then have "js_split CHR '' '' h = takeWhile (\<lambda>c. c \<noteq> CHR '' '') h # js_split CHR '' '' r"
    by (subst js_split_takeWhile) simp
  moreover have "js_split CHR '' '' r = takeWhile (\<lambda>c. c \<noteq> CHR '' '') r #
     (case dropWhile (\<lambda>c. c \<noteq> CHR '' '') r of [] \<Rightarrow> [] | _ # r' \<Rightarrow> js_split CHR '' '' r')"
    by (rule js_split_takeWhile)
  ultimately show ?thesis using Cons by (simp add: header_value_def)
qed

lemma header_value_Nil: "dropWhile (\<lambda>c. c \<noteq> CHR '' '') h = [] \<Longrightarrow> header_value h = []"
  by (simp add: header_value_def del: dropWhile_eq_Nil_conv)

lemma User_id: "User u = u"
  by (simp add: User_def)

lemma loginUser_Inr:
  assumes "loginUser bcrypt jwt e email password d = Inr (token, u)"
  shows "findByEmail d email = Some u
       \<and> bcrypt_compare bcrypt password (passwordHash u) = Inr True
       \<and> jwt_sign jwt (user_id u, user_email u) (JWT_SECRET e) (JWT_EXPIRES_IN e) = Inr token"
  using assms
  by (auto simp: loginUser_def User_id split: option.splits sum.splits if_splits)

lemma bearer_split:
  "CHR '' '' \<notin> set t \<Longrightarrow> js_split CHR '' '' (''Bearer '' @ t) = [''Bearer'', t]"
proof -
  assume t: "CHR '' '' \<notin> set t"
  have "js_split CHR '' '' (''Bearer'' @ CHR '' '' # t) = ''Bearer'' # js_split CHR '' '' t"
    by (rule js_split_append) simp
  with t show ?thesis by (simp add: js_split_no_sep)
qed




section \<open>The model on concrete inputs\<close>

lemma show_nat_examples:
  "show_nat 10 = ''10''" "show_nat 7 = ''7''" "show_nat 8 = ''8''" "show_nat 100 = ''100''"
  "show_nat 3700 = ''3700''" "show_nat 1 = ''1''" "show_nat (Suc 0) = ''1''"
  by (simp_all add: show_nat.simps char_of_def bit_Suc_0_iff)

lemma ana_found:
  "findByEmail ana_db ''ana@x.com'' =
     Some \<lparr>user_id = 1, user_name = ''Ana'', user_email = ''ana@x.com'',
           passwordHash = ''10$7$107321terces'', createdAt = 5\<rparr>"
  by (simp add: findByEmail_def select_by_email_def ana_db_def mapRow_def)

lemma ana_digest: "hasher_hash example_kdf 7 ''secret123'' 10 = Inr ''10$7$107321terces''"
  by (simp add: hasher_hash_def example_kdf_def show_nat_examples)

lemma ana_token:
  "token_issue example_mac 100 (1, ''ana@x.com'') ''k'' 3600 =
     ''1,100,3700,ana@x~dcom.k1~c100~c3700~cana@x~tdcom''"
  by (simp add: token_issue_def example_mac_def show_nat_examples)

lemma ana_login:
  "loginUser (hasher example_kdf 7) (token_lib example_mac 100) example_env ''ana@x.com''
      (JsString ''secret123'') ana_db =
     Inr (''1,100,3700,ana@x~dcom.k1~c100~c3700~cana@x~tdcom'',
          \<lparr>user_id = 1, user_name = ''Ana'', user_email = ''ana@x.com'',
            passwordHash = ''10$7$107321terces'', createdAt = 5\<rparr>)"
proof -
  have "hasher_verify example_kdf ''secret123'' ''10$7$107321terces'' = Inr True"
    using ana_digest by (rule hasher_roundtrip)
  then show ?thesis
    using ana_token
    by (simp add: loginUser_def ana_found hasher_def token_lib_def example_env_def
          JWT_EXPIRES_IN_def User_def)
qed

section \<open>Registration\<close>

text \<open>
  C1, as amended. When the lookup of \<open>registerUser\<close> finds no account with the email, and
  the store's insert then fails with the uniqueness violation DuplicateKey (another
  request inserted the email in between), \<open>registerUser\<close> fails with the store's own
  error, which has no statusCode, and \<open>register\<close> answers 500 with the store's message.
  The 409 conflict comes from the lookup only.
\<close>

theorem register_race_duplicate_key:
  assumes "findByEmail d email = None"
    and "bcrypt_hash bcrypt password 10 = Inr hashed"
    and "fst (insert_returning (interleave concurrent d) (name, email, hashed)) = Inl DuplicateKey"
  shows "registerUser bcrypt concurrent name email password d =
           (Inl \<lparr>message = DuplicateKey, statusCode = None\<rparr>, interleave concurrent d)
       \<and> (name \<noteq> [] \<and> email \<noteq> [] \<and> \<not> falsy_value password \<longrightarrow>
            register bcrypt concurrent (Some name) (Some email) password d =
              (\<lparr>status = 500, body = message_body DuplicateKey\<rparr>, interleave concurrent d))"
proof -
  from assms(3) have ins: "insert_returning (interleave concurrent d) (name, email, hashed)
      = (Inl DuplicateKey, interleave concurrent d)"
    by (auto simp: insert_returning_def Let_def split: if_splits)
  have reg: "registerUser bcrypt concurrent name email password d =
           (Inl \<lparr>message = DuplicateKey, statusCode = None\<rparr>, interleave concurrent d)"
    using assms(1,2) ins by (simp add: registerUser_def createUser_def lib_error_def)
  show ?thesis
    by (simp add: reg register_def falsy_simps falsy_value_simps catch_response_def)
qed

theorem register_race_duplicate_key_witness:
  "findByEmail empty_db ''ana@x.com'' = None
   \<and> bcrypt_hash (hasher example_kdf 7) (JsString ''secret123'') 10 = Inr ''10$7$107321terces''
   \<and> registerUser (hasher example_kdf 7) [(''Ana2'', ''ana@x.com'', ''h'')] ''Ana'' ''ana@x.com''
        (JsString ''secret123'') empty_db =
        (Inl \<lparr>message = DuplicateKey, statusCode = None\<rparr>,
         interleave [(''Ana2'', ''ana@x.com'', ''h'')] empty_db)"
proof -
  have h1: "findByEmail empty_db ''ana@x.com'' = None"
    by (simp add: findByEmail_def select_by_email_def empty_db_def)
  have h2: "bcrypt_hash (hasher example_kdf 7) (JsString ''secret123'') 10 = Inr ''10$7$107321terces''"
    using ana_digest by (simp add: hasher_def)
  have h3: "fst (insert_returning (interleave [(''Ana2'', ''ana@x.com'', ''h'')] empty_db)
                   (''Ana'', ''ana@x.com'', ''10$7$107321terces'')) = Inl DuplicateKey"
    by (simp add: insert_returning_def select_by_email_def empty_db_def Let_def)
  from register_race_duplicate_key [OF h1 h2 h3]
  show ?thesis using h1 h2 by simp
qed

text \<open>
  The claim as stated fails: the lookup finds the email absent, the insert fails with
  DuplicateKey after a concurrent insert of the same email, and the answer is 500, not 409.
\<close>

theorem register_race_counterexample:
  "findByEmail empty_db ''ana@x.com'' = None
   \<and> fst (insert_returning (interleave [(''Ana2'', ''ana@x.com'', ''h'')] empty_db)
            (''Ana'', ''ana@x.com'', ''10$7$107321terces'')) = Inl DuplicateKey
   \<and> fst (register (hasher example_kdf 7) [(''Ana2'', ''ana@x.com'', ''h'')]
            (Some ''Ana'') (Some ''ana@x.com'') (JsString ''secret123'') empty_db) =
       \<lparr>status = 500, body = JObj [(''message'', JStr ''duplicate key value violates unique constraint'')]\<rparr>"
  using ana_digest
  by (simp add: register_def registerUser_def createUser_def insert_returning_def findByEmail_def
        select_by_email_def empty_db_def hasher_def falsy_simps falsy_value_simps lib_error_def catch_response_def
        message_body_def DuplicateKey_def Let_def)

text \<open>
  C8. When the store already holds an account with the email, \<open>registerUser\<close> fails with
  the 409 conflict \<open>El email ya esta registrado\<close> and returns the store as it was: no
  insert is made, whatever other requests do. The handler \<open>register\<close> answers 409.
\<close>

theorem register_existing_email:
  assumes "email \<in> email_col ` set (users d)"
  shows "registerUser bcrypt concurrent name email password d =
           (Inl \<lparr>message = ''El email ya esta registrado'', statusCode = Some 409\<rparr>, d)
       \<and> (name \<noteq> [] \<and> email \<noteq> [] \<and> \<not> falsy_value password \<longrightarrow>
            register bcrypt concurrent (Some name) (Some email) password d =
              (\<lparr>status = 409, body = message_body ''El email ya esta registrado''\<rparr>, d))"
proof -
  from assms obtain existing where "findByEmail d email = Some existing"
    using findByEmail_None_iff [of d email] by auto
  then show ?thesis
    by (simp add: registerUser_def register_def falsy_simps falsy_value_simps catch_response_def)
qed

theorem register_existing_email_witness:
  "''ana@x.com'' \<in> email_col ` set (users ana_db)
   \<and> register (hasher example_kdf 8) [] (Some ''Ana2'') (Some ''ana@x.com'') (JsString ''other'') ana_db =
       (\<lparr>status = 409, body = message_body ''El email ya esta registrado''\<rparr>, ana_db)"
proof -
  have h: "''ana@x.com'' \<in> email_col ` set (users ana_db)"
    by (simp add: ana_db_def)
  from register_existing_email [OF h, of "hasher example_kdf 8" "[]" "''Ana2''" "JsString ''other''"]
  show ?thesis using h by (simp add: falsy_value_simps)
qed

section \<open>Login\<close>

text \<open>
  Where bcrypt's comparison answers false, the two failures of a login are the same: an
  email that no account has, and a password that does not match, both give statusCode 401
  and the message \<open>Credenciales invalidas\<close>, from \<open>loginUser\<close> and from the handler.
\<close>

lemma login_failures_same:
  assumes "findByEmail d e = Some u"
    and "bcrypt_compare bcrypt p (passwordHash u) = Inr False"
    and "findByEmail d e' = None"
  shows "loginUser bcrypt jwt ev e p d =
           Inl \<lparr>message = ''Credenciales invalidas'', statusCode = Some 401\<rparr>
       \<and> loginUser bcrypt jwt ev e' p' d = loginUser bcrypt jwt ev e p d
       \<and> (e \<noteq> [] \<and> \<not> falsy_value p \<and> e' \<noteq> [] \<and> \<not> falsy_value p' \<longrightarrow>
            login bcrypt jwt ev (Some e) p d =
              \<lparr>status = 401, body = message_body ''Credenciales invalidas''\<rparr>
          \<and> login bcrypt jwt ev (Some e') p' d = login bcrypt jwt ev (Some e) p d)"
  using assms
  by (simp add: loginUser_def login_def falsy_simps falsy_value_simps catch_response_def)

text \<open>
  Where bcrypt's comparison throws, they are not: \<open>loginUser\<close> has no handler around
  the comparison, so for the email of an account the library's error reaches the client as
  a 500 with the library's message, while an email that no account has is answered 401
  before the comparison. The handler lets through every truthy password, a string or not.
\<close>

lemma login_compare_throws:
  assumes "findByEmail d e = Some u"
    and "bcrypt_compare bcrypt p (passwordHash u) = Inl msg"
    and "findByEmail d e' = None"
    and "e \<noteq> []" and "e' \<noteq> []" and "\<not> falsy_value p"
  shows "login bcrypt jwt ev (Some e) p d = \<lparr>status = 500, body = message_body msg\<rparr>
       \<and> login bcrypt jwt ev (Some e') p d =
           \<lparr>status = 401, body = message_body ''Credenciales invalidas''\<rparr>"
  using assms
  by (simp add: loginUser_def login_def falsy_simps catch_response_def lib_error_def)

text \<open>
  C2. The claim: login with the email of an account and a wrong password, and login with
  an email that no account has, fail with the same status 401 and the same message. The
  code breaks it on a password that is not a string. With the JSON number 12345 as
  password, which the handler's check lets through and on which the comparison throws,
  the login for the email of the account \<open>ana@x.com\<close> is answered 500 with the library's
  message, and the login for \<open>bob@x.com\<close>, which no account has, is answered 401: the two
  responses tell whether the email has an account.
\<close>

theorem login_failures_told_apart:
  "falsy_value (JsNumber 12345) = False
   \<and> login (hasher example_kdf 7) (token_lib example_mac 100) example_env
        (Some ''ana@x.com'') (JsNumber 12345) ana_db =
        \<lparr>status = 500, body = message_body InvalidInput\<rparr>
   \<and> login (hasher example_kdf 7) (token_lib example_mac 100) example_env
        (Some ''bob@x.com'') (JsNumber 12345) ana_db =
        \<lparr>status = 401, body = message_body ''Credenciales invalidas''\<rparr>"
proof -
  have h2: "bcrypt_compare (hasher example_kdf 7) (JsNumber 12345) ''10$7$107321terces''
              = Inl InvalidInput"
    by (simp add: hasher_def)
  have h3: "findByEmail ana_db ''bob@x.com'' = None"
    by (simp add: findByEmail_def select_by_email_def ana_db_def)
  have t: "\<not> falsy_value (JsNumber 12345)"
    by (simp add: falsy_value_simps)
  from login_compare_throws [OF ana_found _ h3 _ _ t, of "hasher example_kdf 7" InvalidInput
      "token_lib example_mac 100" example_env] h2 t
  show ?thesis by simp
qed

section \<open>The authentication middleware\<close>

text \<open>
  C3, as amended. Every rejection of \<open>authMiddleware\<close> has status 401. The body is the
  message \<open>No autorizado\<close> when no token was handed to the verifier (header absent,
  wrong scheme, no token), and the message \<open>Token invalido\<close> when the verifier threw,
  whatever it threw: the causes of a failed verification are not told apart, but the two
  groups are.
\<close>

theorem auth_rejections:
  assumes "fst (authMiddleware jwt e hdr) = Responded r"
  shows "status r = 401
       \<and> body r = message_body (if snd (authMiddleware jwt e hdr) = [] then ''No autorizado''
                                 else ''Token invalido'')"
  using assms
  by (auto simp: authMiddleware_def Let_def split: if_splits option.splits sum.splits)

theorem auth_rejections_witness:
  "fst (authMiddleware (token_lib example_mac 100) example_env (Some ''Basic abc'')) =
      Responded \<lparr>status = 401, body = message_body ''No autorizado''\<rparr>
   \<and> snd (authMiddleware (token_lib example_mac 100) example_env (Some ''Basic abc'')) = []"
proof -
  have h: "fst (authMiddleware (token_lib example_mac 100) example_env (Some ''Basic abc'')) =
      Responded \<lparr>status = 401, body = message_body ''No autorizado''\<rparr>"
    by (simp add: authMiddleware_def falsy_simps falsy_value_simps)
  from auth_rejections [OF h] show ?thesis using h
    by (simp add: authMiddleware_def falsy_simps falsy_value_simps)
qed

text \<open>
  The claim as stated fails: an absent header and a header with a token that the verifier
  rejects are both answered 401, with different bodies.
\<close>

theorem auth_rejections_counterexample:
  "fst (authMiddleware (token_lib example_mac 100) example_env None) =
      Responded \<lparr>status = 401, body = JObj [(''message'', JStr ''No autorizado'')]\<rparr>
   \<and> fst (authMiddleware (token_lib example_mac 100) example_env (Some ''Bearer x'')) =
      Responded \<lparr>status = 401, body = JObj [(''message'', JStr ''Token invalido'')]\<rparr>
   \<and> JObj [(''message'', JStr ''No autorizado'')] \<noteq> JObj [(''message'', JStr ''Token invalido'')]"
  by (simp add: authMiddleware_def falsy_simps falsy_value_simps token_lib_def token_verify_def message_body_def)

text \<open>
  C4. A header that is absent, whose first space-separated part is not exactly
  \<open>Bearer\<close>, or that has no non-empty value after the scheme, is answered 401
  \<open>No autorizado\<close> with no call of the verifier. Any other header has its value handed
  to the verifier, once, and the verifier's outcome decides.
\<close>

theorem cheap_rejection:
  "(malformed_header hdr \<longrightarrow>
      authMiddleware jwt e hdr =
        (Responded \<lparr>status = 401, body = message_body ''No autorizado''\<rparr>, []))
   \<and> (\<not> malformed_header (Some h) \<longrightarrow>
      authMiddleware jwt e (Some h) =
        (case jwt_verify jwt (header_value h) (JWT_SECRET e) of
           Inr payload \<Rightarrow> Next \<lparr>req_user_id = pl_sub payload, req_user_email = pl_email payload\<rparr>
         | Inl err \<Rightarrow> Responded \<lparr>status = 401, body = message_body ''Token invalido''\<rparr>,
         [header_value h]))"
proof (intro conjI impI)
  assume m: "malformed_header hdr"
  show "authMiddleware jwt e hdr =
        (Responded \<lparr>status = 401, body = message_body ''No autorizado''\<rparr>, [])"
  proof (cases hdr)
    case None
    then show ?thesis by (simp add: authMiddleware_def)
  next
    case (Some h')
    with m have "header_scheme h' \<noteq> ''Bearer'' \<or> header_value h' = []"
      by (simp add: malformed_header_def)
    then show ?thesis
      unfolding authMiddleware_def Let_def Some option.case header_scheme_split header_value_split
      by (auto simp: falsy_simps falsy_value_simps split: list.splits)
  qed
next
  assume w: "\<not> malformed_header (Some h)"
  then have s: "header_scheme h = ''Bearer''" and v: "header_value h \<noteq> []"
    by (simp_all add: malformed_header_def)
  from v obtain x r where d: "dropWhile (\<lambda>c. c \<noteq> CHR '' '') h = x # r"
    using header_value_Nil [of h] by (cases "dropWhile (\<lambda>c. c \<noteq> CHR '' '') h") auto
  show "authMiddleware jwt e (Some h) =
        (case jwt_verify jwt (header_value h) (JWT_SECRET e) of
           Inr payload \<Rightarrow> Next \<lparr>req_user_id = pl_sub payload, req_user_email = pl_email payload\<rparr>
         | Inl err \<Rightarrow> Responded \<lparr>status = 401, body = message_body ''Token invalido''\<rparr>,
         [header_value h])"
    unfolding authMiddleware_def Let_def option.case header_scheme_split header_value_split
    using s v d by (simp add: falsy_simps falsy_value_simps split: sum.splits)
qed

theorem cheap_rejection_witness:
  "malformed_header (Some ''bearer abc'')
   \<and> authMiddleware (token_lib example_mac 100) example_env (Some ''bearer abc'') =
       (Responded \<lparr>status = 401, body = message_body ''No autorizado''\<rparr>, [])
   \<and> \<not> malformed_header (Some ''Bearer abc'')
   \<and> snd (authMiddleware (token_lib example_mac 100) example_env (Some ''Bearer abc'')) = [''abc'']"
proof -
  have h1: "malformed_header (Some ''bearer abc'')"
    by (simp add: malformed_header_def header_scheme_def)
  have h2: "\<not> malformed_header (Some ''Bearer abc'')"
    by (simp add: malformed_header_def header_scheme_def header_value_def)
  have v: "header_value ''Bearer abc'' = ''abc''"
    by (simp add: header_value_def)
  from cheap_rejection [of "Some ''bearer abc''" "token_lib example_mac 100" example_env "''Bearer abc''"]
  show ?thesis using h1 h2 v by simp
qed


section \<open>The Token Issuer/Verifier\<close>

text \<open>
  C6. A token issued for an account id and an email, verified at once with the same
  secret, is accepted, and the assertion has that id as subject and that email, the issue
  time, and the issue time plus the ttl as expiry; the ttl of the service is 3600 seconds
  when the environment sets none. On the code: the token of a successful \<open>loginUser\<close>,
  sent as \<open>Bearer token\<close>, passes \<open>authMiddleware\<close>, which sets \<open>req.user\<close> to the id
  and the email of the account.
\<close>

theorem issue_then_verify:
  "token_verify mac now (token_issue mac now (accountId, email) secret ttl) secret =
     Inr \<lparr>pl_sub = accountId, pl_email = email, pl_iat = now, pl_exp = now + ttl\<rparr>
   \<and> JWT_EXPIRES_IN \<lparr>JWT_SECRET = secret, env_JWT_EXPIRES_IN = None\<rparr> = 3600
   \<and> (loginUser bcrypt (token_lib mac now) e em pw d = Inr (token, u) \<longrightarrow>
        jwt_verify (token_lib mac now) token (JWT_SECRET e) =
          Inr \<lparr>pl_sub = user_id u, pl_email = user_email u, pl_iat = now,
               pl_exp = now + JWT_EXPIRES_IN e\<rparr>
      \<and> authMiddleware (token_lib mac now) e (Some (''Bearer '' @ token)) =
          (Next \<lparr>req_user_id = user_id u, req_user_email = user_email u\<rparr>, [token]))"
proof (intro conjI impI)
  show "token_verify mac now (token_issue mac now (accountId, email) secret ttl) secret =
     Inr \<lparr>pl_sub = accountId, pl_email = email, pl_iat = now, pl_exp = now + ttl\<rparr>"
    by (rule token_roundtrip)
  show "JWT_EXPIRES_IN \<lparr>JWT_SECRET = secret, env_JWT_EXPIRES_IN = None\<rparr> = 3600"
    by (simp add: JWT_EXPIRES_IN_def)
next
  assume "loginUser bcrypt (token_lib mac now) e em pw d = Inr (token, u)"
  then have "jwt_sign (token_lib mac now) (user_id u, user_email u) (JWT_SECRET e) (JWT_EXPIRES_IN e)
               = Inr token"
    by (simp add: loginUser_Inr)
  then have tok: "token = token_issue mac now (user_id u, user_email u) (JWT_SECRET e) (JWT_EXPIRES_IN e)"
    by (simp add: token_lib_def)
  show v: "jwt_verify (token_lib mac now) token (JWT_SECRET e) =
          Inr \<lparr>pl_sub = user_id u, pl_email = user_email u, pl_iat = now,
               pl_exp = now + JWT_EXPIRES_IN e\<rparr>"
    by (simp add: token_lib_def tok token_roundtrip)
  have sp: "js_split CHR '' '' (''Bearer '' @ token) = [''Bearer'', token]"
    unfolding tok by (rule bearer_split) (rule token_no_space)
  have ne: "token \<noteq> []"
    unfolding tok by (rule token_not_Nil)
  show "authMiddleware (token_lib mac now) e (Some (''Bearer '' @ token)) =
          (Next \<lparr>req_user_id = user_id u, req_user_email = user_email u\<rparr>, [token])"
    unfolding authMiddleware_def Let_def option.case sp
    using ne v by (simp add: falsy_simps falsy_value_simps)
qed

theorem issue_then_verify_witness:
  "loginUser (hasher example_kdf 7) (token_lib example_mac 100) example_env ''ana@x.com''
      (JsString ''secret123'') ana_db =
     Inr (''1,100,3700,ana@x~dcom.k1~c100~c3700~cana@x~tdcom'',
          \<lparr>user_id = 1, user_name = ''Ana'', user_email = ''ana@x.com'',
            passwordHash = ''10$7$107321terces'', createdAt = 5\<rparr>)
   \<and> authMiddleware (token_lib example_mac 100) example_env
        (Some ''Bearer 1,100,3700,ana@x~dcom.k1~c100~c3700~cana@x~tdcom'') =
       (Next \<lparr>req_user_id = 1, req_user_email = ''ana@x.com''\<rparr>,
        [''1,100,3700,ana@x~dcom.k1~c100~c3700~cana@x~tdcom''])"
proof -
  from issue_then_verify [of example_mac 100 0 "[]" "[]" 0 "hasher example_kdf 7" example_env
      "''ana@x.com''" "JsString ''secret123''" ana_db]
  show ?thesis using ana_login by simp
qed

section \<open>The Credential Hasher\<close>

text \<open>
  C5. For every password that the hasher accepts (every non-empty one), \<open>hash\<close> returns
  a digest, \<open>verify\<close> of the password against that digest returns true, and two
  calls of \<open>hash\<close> on the password that draw different salts return different digests.
\<close>

theorem hasher_verify_hash:
  assumes "p \<noteq> []"
  shows "\<exists>d1 d2. hasher_hash kdf s1 p cost = Inr d1 \<and> hasher_hash kdf s2 p cost = Inr d2
           \<and> hasher_verify kdf p d1 = Inr True \<and> (s1 \<noteq> s2 \<longrightarrow> d1 \<noteq> d2)"
proof -
  from assms obtain d1 d2 where
    d: "hasher_hash kdf s1 p cost = Inr d1" "hasher_hash kdf s2 p cost = Inr d2"
    by (simp add: hasher_hash_def)
  from d(1) have "hasher_verify kdf p d1 = Inr True" by (rule hasher_roundtrip)
  moreover have "s1 \<noteq> s2 \<longrightarrow> d1 \<noteq> d2" using hasher_salted [OF d] by blast
  ultimately show ?thesis using d by blast
qed

theorem hasher_verify_hash_witness:
  "''secret123'' \<noteq> []
   \<and> hasher_hash example_kdf 7 ''secret123'' 10 = Inr ''10$7$107321terces''
   \<and> hasher_hash example_kdf 8 ''secret123'' 10 = Inr ''10$8$108321terces''
   \<and> hasher_verify example_kdf ''secret123'' ''10$7$107321terces'' = Inr True
   \<and> ''10$7$107321terces'' \<noteq> ''10$8$108321terces''"
proof -
  have h: "''secret123'' \<noteq> []" by simp
  have b: "hasher_hash example_kdf 8 ''secret123'' 10 = Inr ''10$8$108321terces''"
    by (simp add: hasher_hash_def example_kdf_def show_nat_examples)
  from hasher_verify_hash [OF h, of example_kdf 7 10 8]
  show ?thesis using ana_digest b by simp
qed

section \<open>What the responses show\<close>




text \<open>
  C9, as amended. A successful login is answered 200 with the token and the account
  under \<open>user\<close>, which has the fields id, name and email of the stored account, in this
  order, and no others: createdAt is not in the login response, and passwordHash is not.
\<close>

theorem login_success_body:
  assumes "loginUser bcrypt jwt e email password d = Inr (token, u)"
    and "email \<noteq> []" and "\<not> falsy_value password"
  shows "login bcrypt jwt e (Some email) password d =
           \<lparr>status = 200,
            body = JObj [(''token'', JStr token),
                         (''user'', JObj [(''id'', JNum (user_id u)), (''name'', JStr (user_name u)),
                                          (''email'', JStr (user_email u))])]\<rparr>
       \<and> findByEmail d email = Some u
       \<and> json_keys (body (login bcrypt jwt e (Some email) password d)) =
           [''token'', ''user'', ''id'', ''name'', ''email'']"
  using assms loginUser_Inr [OF assms(1)] by (simp add: login_def falsy_simps falsy_value_simps)

theorem login_success_body_witness:
  "loginUser (hasher example_kdf 7) (token_lib example_mac 100) example_env ''ana@x.com''
      (JsString ''secret123'') ana_db =
     Inr (''1,100,3700,ana@x~dcom.k1~c100~c3700~cana@x~tdcom'',
          \<lparr>user_id = 1, user_name = ''Ana'', user_email = ''ana@x.com'',
            passwordHash = ''10$7$107321terces'', createdAt = 5\<rparr>)
   \<and> login (hasher example_kdf 7) (token_lib example_mac 100) example_env (Some ''ana@x.com'')
        (JsString ''secret123'') ana_db =
       \<lparr>status = 200,
        body = JObj [(''token'', JStr ''1,100,3700,ana@x~dcom.k1~c100~c3700~cana@x~tdcom''),
                     (''user'', JObj [(''id'', JNum 1), (''name'', JStr ''Ana''),
                                      (''email'', JStr ''ana@x.com'')])]\<rparr>"
proof -
  have ne: "''ana@x.com'' \<noteq> []" "\<not> falsy_value (JsString ''secret123'')"
    by (simp_all add: falsy_value_simps)
  from login_success_body [OF ana_login ne]
  show ?thesis using ana_login by simp
qed

text \<open>
  The claim as stated fails: the view in a successful login response has no field
  createdAt, while the view that \<open>me\<close> returns for the same account has it.
\<close>

theorem login_view_counterexample:
  "status (login (hasher example_kdf 7) (token_lib example_mac 100) example_env
             (Some ''ana@x.com'') (JsString ''secret123'') ana_db) = 200
   \<and> ''createdAt'' \<notin> set (json_keys (body (login (hasher example_kdf 7)
             (token_lib example_mac 100) example_env (Some ''ana@x.com'') (JsString ''secret123'')
             ana_db)))
   \<and> ''createdAt'' \<in> set (json_keys (body (me \<lparr>req_user_id = 1, req_user_email = ''ana@x.com''\<rparr>
             ana_db)))"
proof -
  have "login (hasher example_kdf 7) (token_lib example_mac 100) example_env
             (Some ''ana@x.com'') (JsString ''secret123'') ana_db =
       \<lparr>status = 200,
        body = JObj [(''token'', JStr ''1,100,3700,ana@x~dcom.k1~c100~c3700~cana@x~tdcom''),
                     (''user'', JObj [(''id'', JNum 1), (''name'', JStr ''Ana''),
                                      (''email'', JStr ''ana@x.com'')])]\<rparr>"
    by (simp add: login_def falsy_simps falsy_value_simps ana_login)
  moreover have "''createdAt'' \<in> set (json_keys (body (me \<lparr>req_user_id = 1,
             req_user_email = ''ana@x.com''\<rparr> ana_db)))"
    by (simp add: me_def getProfile_def findById_def select_by_id_def ana_db_def)
  ultimately show ?thesis by simp
qed

section \<open>The error responses of the handlers\<close>



end
